theory Spec2Isabelle
  imports Complex_Main
begin

section \<open>JavaScript values used by the gateway and the orchestrator\<close>

text \<open>
  A JavaScript string is a sequence of UTF-16 code units; a code unit is modelled by its
  number. \<open>js\<close> turns an ASCII literal of the source into such a sequence.
\<close>

type_synonym js_string = "nat list"

definition js :: "string \<Rightarrow> js_string" where
  "js s = map of_char s"

text \<open>
  \<open>String.prototype.trim\<close> removes the ECMAScript WhiteSpace and LineTerminator code points
  from both ends: TAB, LF, VT, FF, CR, SPACE, NBSP, the other space separators of Unicode
  (U+1680, U+2000 to U+200A, U+202F, U+205F, U+3000), U+2028, U+2029 and U+FEFF.
\<close>

definition is_js_space :: "nat \<Rightarrow> bool" where
  "is_js_space c \<longleftrightarrow>
     c = 9 \<or> c = 10 \<or> c = 11 \<or> c = 12 \<or> c = 13 \<or> c = 32 \<or> c = 160 \<or> c = 5760 \<or>
     (8192 \<le> c \<and> c \<le> 8202) \<or> c = 8232 \<or> c = 8233 \<or> c = 8239 \<or> c = 8287 \<or>
     c = 12288 \<or> c = 65279"

definition trim :: "js_string \<Rightarrow> js_string" where
  "trim s = rev (dropWhile is_js_space (rev (dropWhile is_js_space s)))"

definition startsWith :: "js_string \<Rightarrow> js_string \<Rightarrow> bool" where
  "startsWith s p \<longleftrightarrow> take (length p) s = p"

text \<open>
  \<open>String.prototype.toUpperCase\<close> follows the Unicode case mappings, which are not part of
  the repository; the gateway takes it as a parameter. \<open>toUpperCase_ascii\<close> is its
  restriction to ASCII text, used to run the gateway on ASCII queries.
\<close>

definition toUpperCase_ascii :: "js_string \<Rightarrow> js_string" where
  "toUpperCase_ascii s = map (\<lambda>c. if 97 \<le> c \<and> c \<le> 122 then c - 32 else c) s"

text \<open>
  A JavaScript number as far as the code looks at it: a finite value, an infinity or NaN
  (negative zero is not told apart from zero: both are falsy).
\<close>

datatype js_number = Finite rat | PosInfinity | NegInfinity | NaN

text \<open>
  The values \<open>JSON.parse\<close> and the body parser produce. An object is the list of its own
  properties in enumeration order. \<open>undefined\<close> is not a JSON value: a value that may be
  \<open>undefined\<close> is a \<open>json option\<close>, with \<open>None\<close> for \<open>undefined\<close>.
\<close>

datatype json =
    JNull
  | JBool bool
  | JNum js_number
  | JStr js_string
  | JArr "json list"
  | JObj "(js_string \<times> json) list"

text \<open>ToBoolean, the test behind \<open>!x\<close>, \<open>x && y\<close> and \<open>if (x)\<close>.\<close>

fun truthy :: "json \<Rightarrow> bool" where
  "truthy JNull = False"
| "truthy (JBool b) = b"
| "truthy (JNum n) = (n \<noteq> Finite 0 \<and> n \<noteq> NaN)"
| "truthy (JStr s) = (s \<noteq> [])"
| "truthy (JArr xs) = True"
| "truthy (JObj kvs) = True"

fun truthy_opt :: "json option \<Rightarrow> bool" where
  "truthy_opt None = False"
| "truthy_opt (Some v) = truthy v"

text \<open>What a \<open>throw\<close> carries: an \<open>Error\<close> object with its message, or some other value.\<close>

datatype thrown = Error js_string | NonError

section \<open>The query gateway: POST /api/query (server.ts)\<close>

text \<open>
  The handler reads \<open>sql\<close> from the parsed request body (\<open>None\<close> when the field is
  absent). The store is \<open>db.prepare(sql).all()\<close>: it returns the rows or throws an error
  with a message (\<open>Inl\<close>). The outcome of a request is the HTTP status, the JSON body sent
  and the list of query strings handed to the store while the request was handled.
  The diagnostic \<open>console.log\<close> calls are left out.
\<close>

datatype 'r response_body = ErrorBody js_string | DataBody "'r list"

record 'r outcome =
  status :: nat
  body :: "'r response_body"
  store_calls :: "js_string list"

definition handle_query ::
  "(js_string \<Rightarrow> js_string) \<Rightarrow> (js_string \<Rightarrow> js_string + 'r list) \<Rightarrow> json option \<Rightarrow> 'r outcome"
where
  "handle_query toUpperCase db sql =
     (if \<not> truthy_opt sql then
        \<lparr>status = 400, body = ErrorBody (js ''No SQL query provided''), store_calls = []\<rparr>
      else
        (case sql of
           Some (JStr s) \<Rightarrow>
             if \<not> startsWith (toUpperCase (trim s)) (js ''SELECT'') then
               \<lparr>status = 403, body = ErrorBody (js ''Only SELECT queries are allowed''),
                store_calls = []\<rparr>
             else
               (case db s of
                  Inr rows \<Rightarrow> \<lparr>status = 200, body = DataBody rows, store_calls = [s]\<rparr>
                | Inl message \<Rightarrow> \<lparr>status = 500, body = ErrorBody message, store_calls = [s]\<rparr>)
         | _ \<Rightarrow>
             \<comment> \<open>\<open>sql.trim\<close> is \<open>undefined\<close> on a number, a boolean, an array and an object
                 (a property \<open>trim\<close> of a parsed object is never a function): the call throws
                 a TypeError, which the handler's \<open>catch\<close> turns into a 500\<close>
             \<lparr>status = 500, body = ErrorBody (js ''sql.trim is not a function''),
              store_calls = []\<rparr>))"

section \<open>The chat orchestrator: handleSubmit and renderChart (App.tsx)\<close>

subsection \<open>Messages and charts\<close>

text \<open>
  The fields \<open>id\<close> and \<open>timestamp\<close> of a message (clock readings) are left out. The
  content and the query string of an assistant message are whatever the plan holds under
  \<open>answer\<close> and \<open>sql\<close>, so they are JSON values that may be \<open>undefined\<close>. Of the
  object \<open>{...result.chart, data: chartData}\<close> the model keeps the three properties the
  code reads later: \<open>type\<close>, \<open>title\<close> and \<open>data\<close>.
\<close>

datatype role = User | Assistant

record ChartData =
  name :: js_string
  point_value :: js_number

record chart_spec =
  chart_type :: "json option"
  title :: "json option"
  data :: "ChartData list"

record Message =
  role :: role
  content :: "json option"
  chart :: "chart_spec option"
  sql :: "json option"

subsection \<open>The environment of a turn\<close>

text \<open>
  A row of a query result is the row object the gateway sent: its properties in
  enumeration order (what \<open>Object.keys\<close> lists), with distinct names.
\<close>

type_synonym row = "(js_string \<times> json) list"

text \<open>
  The response of \<open>fetch('/api/query')\<close>: its \<open>ok\<close> flag, and what \<open>await
  queryResponse.json()\<close> followed by the destructuring of \<open>data\<close> gives: it throws, or
  \<open>data\<close> is \<open>undefined\<close> (\<open>None\<close>), or \<open>data\<close> is the gateway's array of rows.
\<close>

record query_response =
  ok :: bool
  response_data :: "thrown + row list option"

text \<open>
  What a turn calls and does not define itself. Every call is taken to settle: it returns
  (\<open>Inr\<close>) or throws (\<open>Inl\<close>).
  \<^item> \<open>generateContent\<close>: the planner call on the user's question (the construction of the
    client included); it resolves with \<open>response.text\<close>, which may be \<open>undefined\<close>;
  \<^item> \<open>JSON_parse\<close>: \<open>JSON.parse\<close>;
  \<^item> \<open>fetch_query\<close>: the POST of \<open>{sql: result.sql}\<close> to \<open>/api/query\<close>;
  \<^item> \<open>js_String\<close>, \<open>js_Number\<close>: the conversions \<open>String(x)\<close> and \<open>Number(x)\<close>.
\<close>

record env =
  generateContent :: "js_string \<Rightarrow> thrown + js_string option"
  JSON_parse :: "js_string \<Rightarrow> thrown + json"
  fetch_query :: "json \<Rightarrow> thrown + query_response"
  js_String :: "json option \<Rightarrow> js_string"
  js_Number :: "json option \<Rightarrow> js_number"

subsection \<open>Reading the plan\<close>

text \<open>
  Property access for the names the orchestrator reads (\<open>sql\<close>, \<open>answer\<close>, \<open>chart\<close>,
  \<open>type\<close>, \<open>title\<close>): none of them is a built-in property of a string, an array, a
  number or a boolean, so only an object can hold one.
\<close>

fun own_prop :: "json \<Rightarrow> js_string \<Rightarrow> json option" where
  "own_prop (JObj kvs) k = map_of kvs k"
| "own_prop _ k = None"

text \<open>\<open>v.k\<close>: a TypeError on \<open>null\<close> (the message is V8's).\<close>

definition get_prop :: "json \<Rightarrow> js_string \<Rightarrow> thrown + json option" where
  "get_prop v k =
     (if v = JNull then
        Inl (Error (js ''Cannot read properties of null (reading '' @ [39] @ k @ [39] @ js '')''))
      else Inr (own_prop v k))"

text \<open>
  \<open>v?.k\<close> on a value that may be \<open>undefined\<close>. The same function gives the property \<open>k\<close>
  of the spread \<open>{...v}\<close>, which has no property when \<open>v\<close> is \<open>undefined\<close> or \<open>null\<close>.
\<close>

fun optional_prop :: "json option \<Rightarrow> js_string \<Rightarrow> json option" where
  "optional_prop None k = None"
| "optional_prop (Some JNull) k = None"
| "optional_prop (Some v) k = own_prop v k"

text \<open>\<open>response.text || "{}"\<close>\<close>

fun text_or_default :: "js_string option \<Rightarrow> js_string" where
  "text_or_default None = js ''{}''"
| "text_or_default (Some t) = (if t = [] then js ''{}'' else t)"

subsection \<open>One turn\<close>

text \<open>
  The projection of the rows on chart data points (lines 162 to 169): the keys are those of
  the first row, and every row is read under the first two of them.
\<close>

definition chartData_of :: "env \<Rightarrow> row list option \<Rightarrow> ChartData list" where
  "chartData_of env d =
     (case d of
        None \<Rightarrow> []
      | Some [] \<Rightarrow> []
      | Some (row0 # rest) \<Rightarrow>
          (let keys = map fst row0 in
           if 2 \<le> length keys then
             map (\<lambda>row. \<lparr>name = js_String env (map_of row (keys ! 0)),
                         point_value = js_Number env (map_of row (keys ! 1))\<rparr>) (row0 # rest)
           else []))"

text \<open>
  Lines 151 to 172: the value of \<open>chartData\<close> after the \<open>if (result.sql)\<close> block, or what
  was thrown there, together with the list of bodies posted to the gateway.
\<close>

fun query_chartData :: "env \<Rightarrow> json option \<Rightarrow> (thrown + ChartData list) \<times> json list" where
  "query_chartData env None = (Inr [], [])"
| "query_chartData env (Some q) =
     (if truthy q then
        (case fetch_query env q of
           Inl e \<Rightarrow> (Inl e, [q])
         | Inr queryResponse \<Rightarrow>
             if ok queryResponse then
               (case response_data queryResponse of
                  Inl e \<Rightarrow> (Inl e, [q])
                | Inr d \<Rightarrow> (Inr (chartData_of env d), [q]))
             else (Inr [], [q]))
      else (Inr [], []))"

text \<open>Lines 174 to 181.\<close>

definition assistantMessage :: "json \<Rightarrow> ChartData list \<Rightarrow> thrown + Message" where
  "assistantMessage result chartData =
     (case get_prop result (js ''answer'') of
        Inl e \<Rightarrow> Inl e
      | Inr answer \<Rightarrow>
     (case get_prop result (js ''chart'') of
        Inl e \<Rightarrow> Inl e
      | Inr c \<Rightarrow>
     (case get_prop result (js ''sql'') of
        Inl e \<Rightarrow> Inl e
      | Inr q \<Rightarrow>
          Inr \<lparr>role = Assistant,
               content = answer,
               chart = (if optional_prop c (js ''type'') \<noteq> Some (JStr (js ''none''))
                        then Some \<lparr>chart_type = optional_prop c (js ''type''),
                                   title = optional_prop c (js ''title''),
                                   data = chartData\<rparr>
                        else None),
               sql = q\<rparr>)))"

text \<open>
  The body of the \<open>try\<close> block: the assistant message it builds, or what it throws, and the
  bodies posted to the gateway on the way.
\<close>

definition handleSubmit_try :: "env \<Rightarrow> js_string \<Rightarrow> (thrown + Message) \<times> json list" where
  "handleSubmit_try env currentInput =
     (case generateContent env currentInput of
        Inl e \<Rightarrow> (Inl e, [])
      | Inr response_text \<Rightarrow>
     (case JSON_parse env (text_or_default response_text) of
        Inl e \<Rightarrow> (Inl e, [])
      | Inr result \<Rightarrow>
     (case get_prop result (js ''sql'') of
        Inl e \<Rightarrow> (Inl e, [])
      | Inr q \<Rightarrow>
     (case query_chartData env q of
        (Inl e, posted) \<Rightarrow> (Inl e, posted)
      | (Inr chartData, posted) \<Rightarrow> (assistantMessage result chartData, posted)))))"

text \<open>The message of the \<open>catch\<close> block.\<close>

definition errorMessage :: "thrown \<Rightarrow> Message" where
  "errorMessage error =
     \<lparr>role = Assistant,
      content = Some (JStr (js ''I'm sorry, I encountered an error: '' @
                  (case error of Error message \<Rightarrow> message | NonError \<Rightarrow> js ''Unknown error'') @
                  js ''.'')),
      chart = None,
      sql = None\<rparr>"

definition userMessage :: "js_string \<Rightarrow> Message" where
  "userMessage text_in = \<lparr>role = User, content = Some (JStr text_in), chart = None, sql = None\<rparr>"

subsection \<open>The component state and handleSubmit\<close>

record app =
  input :: js_string
  messages :: "Message list"
  isLoading :: bool

definition initial_app :: app where
  "initial_app =
     \<lparr>input = [],
      messages =
        [\<lparr>role = Assistant,
          content = Some (JStr (js (''Hello! I'm your Titanic Data Assistant. I've been updated '' @
            ''to run more reliably. Ask me anything about the Titanic dataset!''))),
          chart = None, sql = None\<rparr>],
      isLoading = False\<rparr>"

text \<open>
  \<open>handleSubmit\<close> up to its first \<open>await\<close> (lines 105 to 118): \<open>None\<close> when the guard
  returns at once, otherwise the state after the three updates and the captured
  \<open>currentInput\<close>.
\<close>

definition handleSubmit_start :: "app \<Rightarrow> (app \<times> js_string) option" where
  "handleSubmit_start st =
     (if trim (input st) = [] \<or> isLoading st then None
      else Some (st\<lparr>messages := messages st @ [userMessage (input st)],
                    input := [], isLoading := True\<rparr>, input st))"

text \<open>
  The rest of \<open>handleSubmit\<close>, run when the awaited calls have settled: the functional
  updates \<open>setMessages(prev => [...prev, m])\<close> of the \<open>try\<close> or of the \<open>catch\<close> block, then
  \<open>setIsLoading(false)\<close> of the \<open>finally\<close> block, applied to the state of that moment.
\<close>

definition handleSubmit_resume :: "env \<Rightarrow> js_string \<Rightarrow> app \<Rightarrow> app" where
  "handleSubmit_resume env currentInput st =
     (case fst (handleSubmit_try env currentInput) of
        Inr m \<Rightarrow> st\<lparr>messages := messages st @ [m], isLoading := False\<rparr>
      | Inl error \<Rightarrow> st\<lparr>messages := messages st @ [errorMessage error], isLoading := False\<rparr>)"

text \<open>A whole turn with nothing happening in between.\<close>

definition handleSubmit :: "env \<Rightarrow> app \<Rightarrow> app" where
  "handleSubmit env st =
     (case handleSubmit_start st of
        None \<Rightarrow> st
      | Some (st', currentInput) \<Rightarrow> handleSubmit_resume env currentInput st')"

subsection \<open>Rendering a message\<close>

datatype chart_kind = BarChart | PieChart | LineChart

record rendering =
  kind :: chart_kind
  heading :: "json option"
  plotted :: "ChartData list"

text \<open>
  \<open>renderChart\<close> (lines 198 to 251); \<open>None\<close> is its \<open>null\<close>. \<open>chart.data\<close> is an array
  here, so the test \<open>!chart.data\<close> never holds.
\<close>

fun renderChart :: "chart_spec option \<Rightarrow> rendering option" where
  "renderChart None = None"
| "renderChart (Some c) =
     (if chart_type c = Some (JStr (js ''none'')) \<or> data c = [] then None
      else Some \<lparr>kind = (if chart_type c = Some (JStr (js ''bar'')) then BarChart
                         else if chart_type c = Some (JStr (js ''pie'')) then PieChart
                         else LineChart),
                 heading = title c,
                 plotted = data c\<rparr>)"

text \<open>\<open>{message.chart && renderChart(message.chart)}\<close>\<close>

definition view_chart :: "Message \<Rightarrow> rendering option" where
  "view_chart m = (case chart m of None \<Rightarrow> None | Some c \<Rightarrow> renderChart (Some c))"

text \<open>
  \<open>{message.sql && (<details>...{message.sql}...</details>)}\<close>: the query disclosed in the
  \<open>details\<close> element, if any (for a falsy \<open>message.sql\<close> the element is not rendered).
\<close>

definition view_sql :: "Message \<Rightarrow> json option" where
  "view_sql m = (case sql m of None \<Rightarrow> None | Some q \<Rightarrow> if truthy q then Some q else None)"

subsection \<open>A session: submissions and settling turns\<close>

text \<open>
  Between the two halves of \<open>handleSubmit\<close> other events can happen. A session is the
  component state together with the turns that have started and not yet settled (the
  \<open>currentInput\<close> each of them captured). An event is a change of the input field
  (typing, or a click on a suggestion), a submission of the form, or the settling of the
  \<open>i\<close>-th pending turn in an environment. Every handler reads the state of the latest render.
\<close>

record session =
  ui :: app
  in_flight :: "js_string list"

datatype event = SetInput js_string | Submit | Settle env nat

fun fire :: "event \<Rightarrow> session \<Rightarrow> session" where
  "fire (SetInput s) \<sigma> = \<sigma>\<lparr>ui := (ui \<sigma>)\<lparr>input := s\<rparr>\<rparr>"
| "fire Submit \<sigma> =
     (case handleSubmit_start (ui \<sigma>) of
        None \<Rightarrow> \<sigma>
      | Some (st', currentInput) \<Rightarrow> \<lparr>ui = st', in_flight = in_flight \<sigma> @ [currentInput]\<rparr>)"
| "fire (Settle env i) \<sigma> =
     (if i < length (in_flight \<sigma>) then
        \<lparr>ui = handleSubmit_resume env (in_flight \<sigma> ! i) (ui \<sigma>),
         in_flight = take i (in_flight \<sigma>) @ drop (Suc i) (in_flight \<sigma>)\<rparr>
      else \<sigma>)"

definition initial_session :: session where
  "initial_session = \<lparr>ui = initial_app, in_flight = []\<rparr>"

definition run :: "event list \<Rightarrow> session" where
  "run evs = fold fire evs initial_session"

subsection \<open>The invariant of a session\<close>

text \<open>
  At most one turn is pending, and the loading flag is set exactly while one is.
\<close>

definition one_in_flight :: "session \<Rightarrow> bool" where
  "one_in_flight \<sigma> \<longleftrightarrow> length (in_flight \<sigma>) \<le> 1 \<and> (isLoading (ui \<sigma>) \<longleftrightarrow> in_flight \<sigma> \<noteq> [])"

section \<open>Example inputs\<close>

text \<open>
  The inputs on which the properties below are run. \<open>example_String\<close> and
  \<open>example_Number\<close> stand for \<open>String\<close> and \<open>Number\<close>: they agree with JavaScript on
  \<open>undefined\<close>, \<open>null\<close>, booleans and text (\<open>String\<close>), respectively on \<open>undefined\<close>,
  \<open>null\<close>, booleans and numbers (\<open>Number\<close>); the examples apply them to nothing else. In
  an example environment the planner answers every question with the text of one plan,
  which \<open>JSON.parse\<close> turns into that plan.
\<close>

definition example_String :: "json option \<Rightarrow> js_string" where
  "example_String x =
     (case x of
        None \<Rightarrow> js ''undefined''
      | Some JNull \<Rightarrow> js ''null''
      | Some (JBool b) \<Rightarrow> (if b then js ''true'' else js ''false'')
      | Some (JStr s) \<Rightarrow> s
      | Some _ \<Rightarrow> [])"

definition example_Number :: "json option \<Rightarrow> js_number" where
  "example_Number x =
     (case x of
        None \<Rightarrow> NaN
      | Some JNull \<Rightarrow> Finite 0
      | Some (JBool b) \<Rightarrow> Finite (if b then 1 else 0)
      | Some (JNum n) \<Rightarrow> n
      | Some _ \<Rightarrow> NaN)"

definition example_env :: "json \<Rightarrow> (json \<Rightarrow> thrown + query_response) \<Rightarrow> env" where
  "example_env plan gateway =
     \<lparr>generateContent = (\<lambda>question. Inr (Some (js ''(plan)''))),
      JSON_parse = (\<lambda>t. Inr plan),
      fetch_query = gateway,
      js_String = example_String,
      js_Number = example_Number\<rparr>"

definition count_plan :: json where
  "count_plan =
     JObj [(js ''answer'', JStr (js ''Counts by sex.'')),
           (js ''sql'', JStr (js ''SELECT Sex, COUNT(*) AS n FROM titanic GROUP BY Sex'')),
           (js ''chart'', JObj [(js ''type'', JStr (js ''bar'')), (js ''title'', JStr (js ''By sex''))])]"

definition hello_plan :: json where
  "hello_plan = JObj [(js ''answer'', JStr (js ''Hello!''))]"

definition delete_plan :: json where
  "delete_plan =
     JObj [(js ''answer'', JStr (js ''All rows deleted.'')),
           (js ''sql'', JStr (js ''DELETE FROM titanic'')),
           (js ''chart'', JObj [(js ''type'', JStr (js ''none''))])]"

definition count_rows :: "row list" where
  "count_rows =
     [[(js ''Sex'', JStr (js ''female'')), (js ''n'', JNum (Finite 314))],
      [(js ''Sex'', JStr (js ''male'')), (js ''n'', JNum (Finite 577))]]"

text \<open>
  Four gateways: one that finds no rows, one that returns \<open>count_rows\<close>, one that answers
  with a non-OK status (its body has no \<open>data\<close>), and one that cannot be reached.
\<close>

definition empty_gateway :: "json \<Rightarrow> thrown + query_response" where
  "empty_gateway q = Inr \<lparr>ok = True, response_data = Inr (Some [])\<rparr>"

definition count_gateway :: "json \<Rightarrow> thrown + query_response" where
  "count_gateway q = Inr \<lparr>ok = True, response_data = Inr (Some count_rows)\<rparr>"

definition refusing_gateway :: "json \<Rightarrow> thrown + query_response" where
  "refusing_gateway q = Inr \<lparr>ok = False, response_data = Inr None\<rparr>"

definition unreachable_gateway :: "json \<Rightarrow> thrown + query_response" where
  "unreachable_gateway q = Inl (Error (js ''Failed to fetch''))"

lemmas ex_defs = example_env_def count_plan_def hello_plan_def delete_plan_def count_rows_def
  example_String_def example_Number_def js_def get_prop_def

lemmas gw_defs = empty_gateway_def count_gateway_def refusing_gateway_def unreachable_gateway_def

section \<open>Properties of the gateway\<close>

text \<open>
  C7. A request whose \<open>sql\<close> field is absent or is the empty string is answered with
  HTTP 400, and the store is not accessed.
\<close>

theorem query_absent_or_empty_400:
  fixes field :: "json option"
  assumes "field = None \<or> field = Some (JStr [])"
  shows "status (handle_query toUpperCase db field) = 400 \<and>
         store_calls (handle_query toUpperCase db field) = []"
  using assms by (auto simp: handle_query_def)

theorem query_absent_or_empty_400_witness:
  "(Some (JStr []) = None \<or> Some (JStr []) = Some (JStr [])) \<and>
   status (handle_query toUpperCase_ascii (\<lambda>q. Inr [1::nat]) (Some (JStr []))) = 400 \<and>
   store_calls (handle_query toUpperCase_ascii (\<lambda>q. Inr [1::nat]) (Some (JStr []))) = [] \<and>
   status (handle_query toUpperCase_ascii (\<lambda>q. Inr [1::nat]) None) = 400 \<and>
   store_calls (handle_query toUpperCase_ascii (\<lambda>q. Inr [1::nat]) None) = []"
  using query_absent_or_empty_400 [of "Some (JStr [])" toUpperCase_ascii "\<lambda>q. Inr [1::nat]"]
    query_absent_or_empty_400 [of None toUpperCase_ascii "\<lambda>q. Inr [1::nat]"]
  by simp

text \<open>
  C1. A request whose \<open>sql\<close> field is a non-empty string that, trimmed and uppercased,
  does not begin with \<open>SELECT\<close> is answered with HTTP 403, and the store is never invoked.
\<close>

theorem query_not_select_403:
  assumes "s \<noteq> []"
    and "\<not> startsWith (toUpperCase (trim s)) (js ''SELECT'')"
  shows "status (handle_query toUpperCase db (Some (JStr s))) = 403 \<and>
         store_calls (handle_query toUpperCase db (Some (JStr s))) = []"
  using assms by (simp add: handle_query_def)

theorem query_not_select_403_witness:
  "js ''DELETE FROM titanic'' \<noteq> [] \<and>
   \<not> startsWith (toUpperCase_ascii (trim (js ''DELETE FROM titanic''))) (js ''SELECT'') \<and>
   status (handle_query toUpperCase_ascii (\<lambda>q. Inr [1::nat])
     (Some (JStr (js ''DELETE FROM titanic'')))) = 403 \<and>
   store_calls (handle_query toUpperCase_ascii (\<lambda>q. Inr [1::nat])
     (Some (JStr (js ''DELETE FROM titanic'')))) = []"
proof -
  have ne: "js ''DELETE FROM titanic'' \<noteq> []"
    by (simp add: js_def)
  have np: "\<not> startsWith (toUpperCase_ascii (trim (js ''DELETE FROM titanic''))) (js ''SELECT'')"
    by (simp add: js_def trim_def is_js_space_def toUpperCase_ascii_def startsWith_def)
  from query_not_select_403 [where s = "js ''DELETE FROM titanic''"
      and toUpperCase = toUpperCase_ascii and db = "\<lambda>q. Inr [1::nat]", OF ne np] ne np
  show ?thesis
    by blast
qed

text \<open>
  C6. A request whose \<open>sql\<close> string passes validation is executed: the store is called once,
  with the string as received; when it returns rows the answer is HTTP 200 with exactly
  these rows, and when it throws the answer is HTTP 500 with the store's message unchanged.
\<close>

theorem query_valid_executes:
  assumes "s \<noteq> []"
    and "startsWith (toUpperCase (trim s)) (js ''SELECT'')"
  shows "handle_query toUpperCase db (Some (JStr s)) =
           (case db s of
              Inr rows \<Rightarrow> \<lparr>status = 200, body = DataBody rows, store_calls = [s]\<rparr>
            | Inl message \<Rightarrow> \<lparr>status = 500, body = ErrorBody message, store_calls = [s]\<rparr>)"
  using assms by (simp add: handle_query_def)

theorem query_valid_executes_witness:
  "js '' select Sex from titanic'' \<noteq> [] \<and>
   startsWith (toUpperCase_ascii (trim (js '' select Sex from titanic''))) (js ''SELECT'') \<and>
   handle_query toUpperCase_ascii (\<lambda>q. Inr [[(js ''Sex'', JStr (js ''male''))]])
       (Some (JStr (js '' select Sex from titanic''))) =
     \<lparr>status = 200, body = DataBody [[(js ''Sex'', JStr (js ''male''))]],
      store_calls = [js '' select Sex from titanic'']\<rparr> \<and>
   handle_query toUpperCase_ascii
       (\<lambda>q. (Inl (js ''no such column: Sx'') :: js_string + (js_string \<times> json) list list))
       (Some (JStr (js '' select Sex from titanic''))) =
     \<lparr>status = 500, body = ErrorBody (js ''no such column: Sx''),
      store_calls = [js '' select Sex from titanic'']\<rparr>"
proof -
  have ne: "js '' select Sex from titanic'' \<noteq> []"
    by (simp add: js_def)
  have sp: "startsWith (toUpperCase_ascii (trim (js '' select Sex from titanic''))) (js ''SELECT'')"
    by (simp add: js_def trim_def is_js_space_def toUpperCase_ascii_def startsWith_def)
  from query_valid_executes [where s = "js '' select Sex from titanic''"
      and toUpperCase = toUpperCase_ascii
      and db = "\<lambda>q. Inr [[(js ''Sex'', JStr (js ''male''))]]", OF ne sp]
    query_valid_executes [where s = "js '' select Sex from titanic''"
      and toUpperCase = toUpperCase_ascii
      and db = "\<lambda>q. (Inl (js ''no such column: Sx'') :: js_string + (js_string \<times> json) list list)",
      OF ne sp]
    ne sp
  show ?thesis by simp
qed

text \<open>
  C10. A request whose \<open>sql\<close> field is present and truthy but is not a string is answered
  with HTTP 500 (not 400, not 403): calling \<open>trim\<close> on it throws inside the handler's
  \<open>try\<close>. The store is not invoked.
\<close>

theorem query_non_string_500:
  assumes "truthy v"
    and "\<forall>s. v \<noteq> JStr s"
  shows "status (handle_query toUpperCase db (Some v)) = 500 \<and>
         status (handle_query toUpperCase db (Some v)) \<noteq> 400 \<and>
         status (handle_query toUpperCase db (Some v)) \<noteq> 403 \<and>
         store_calls (handle_query toUpperCase db (Some v)) = []"
  using assms by (cases v) (simp_all add: handle_query_def)

theorem query_non_string_500_witness:
  "truthy (JNum (Finite 42)) \<and> (\<forall>s. JNum (Finite 42) \<noteq> JStr s) \<and>
   status (handle_query toUpperCase_ascii (\<lambda>q. Inr [1::nat]) (Some (JNum (Finite 42)))) = 500 \<and>
   truthy (JObj [(js ''trim'', JStr (js ''SELECT 1''))]) \<and>
   (\<forall>s. JObj [(js ''trim'', JStr (js ''SELECT 1''))] \<noteq> JStr s) \<and>
   status (handle_query toUpperCase_ascii (\<lambda>q. Inr [1::nat])
     (Some (JObj [(js ''trim'', JStr (js ''SELECT 1''))]))) = 500 \<and>
   store_calls (handle_query toUpperCase_ascii (\<lambda>q. Inr [1::nat])
     (Some (JObj [(js ''trim'', JStr (js ''SELECT 1''))]))) = []"
  using query_non_string_500 [of "JNum (Finite 42)" toUpperCase_ascii "\<lambda>q. Inr [1::nat]"]
    query_non_string_500 [of "JObj [(js ''trim'', JStr (js ''SELECT 1''))]" toUpperCase_ascii
      "\<lambda>q. Inr [1::nat]"]
  by simp

section \<open>Properties of the orchestrator\<close>

subsection \<open>Facts about one turn\<close>

lemma get_prop_Inr: "get_prop v k = Inr x \<longleftrightarrow> v \<noteq> JNull \<and> x = own_prop v k"
  by (auto simp: get_prop_def)

lemma assistantMessage_non_null:
  "result \<noteq> JNull \<Longrightarrow>
   assistantMessage result chartData =
     Inr \<lparr>role = Assistant,
          content = own_prop result (js ''answer''),
          chart = (if optional_prop (own_prop result (js ''chart'')) (js ''type'') \<noteq>
                      Some (JStr (js ''none''))
                   then Some \<lparr>chart_type = optional_prop (own_prop result (js ''chart'')) (js ''type''),
                              title = optional_prop (own_prop result (js ''chart'')) (js ''title''),
                              data = chartData\<rparr>
                   else None),
          sql = own_prop result (js ''sql'')\<rparr>"
  by (simp add: assistantMessage_def get_prop_def)

lemma assistantMessage_role:
  "assistantMessage result chartData = Inr m \<Longrightarrow> role m = Assistant"
  by (auto simp: assistantMessage_def split: sum.splits)

lemma handleSubmit_try_role:
  "fst (handleSubmit_try env q) = Inr m \<Longrightarrow> role m = Assistant"
  by (auto simp: handleSubmit_try_def split: sum.splits prod.splits dest: assistantMessage_role)

lemma errorMessage_role: "role (errorMessage e) = Assistant"
  by (simp add: errorMessage_def)

lemma handleSubmit_try_parsed:
  assumes "generateContent env question = Inr t"
    and "JSON_parse env (text_or_default t) = Inr result"
    and "get_prop result (js ''sql'') = Inr q"
    and "query_chartData env q = (Inr chartData, posted)"
  shows "handleSubmit_try env question = (assistantMessage result chartData, posted)"
  using assms by (simp add: handleSubmit_try_def)

lemma handleSubmit_try_query_throws:
  assumes "generateContent env question = Inr t"
    and "JSON_parse env (text_or_default t) = Inr result"
    and "get_prop result (js ''sql'') = Inr q"
    and "query_chartData env q = (Inl e, posted)"
  shows "handleSubmit_try env question = (Inl e, posted)"
  using assms by (simp add: handleSubmit_try_def)

lemma view_chart_no_data:
  "assistantMessage result [] = Inr m \<Longrightarrow> view_chart m = None"
  by (auto simp: assistantMessage_def view_chart_def split: sum.splits if_splits)

lemma query_chartData_falsy: "\<not> truthy_opt q \<Longrightarrow> query_chartData env q = (Inr [], [])"
  by (cases q) simp_all

lemma resume_success:
  "handleSubmit_try env question = (Inr m, posted) \<Longrightarrow>
   handleSubmit_resume env question st = st\<lparr>messages := messages st @ [m], isLoading := False\<rparr>"
  by (simp add: handleSubmit_resume_def)

lemma resume_failure:
  "handleSubmit_try env question = (Inl e, posted) \<Longrightarrow>
   handleSubmit_resume env question st =
     st\<lparr>messages := messages st @ [errorMessage e], isLoading := False\<rparr>"
  by (simp add: handleSubmit_resume_def)

lemma resume_not_loading: "\<not> isLoading (handleSubmit_resume env q st)"
  by (simp add: handleSubmit_resume_def split: sum.splits)

lemma handleSubmit_resume_appends:
  "\<exists>m. role m = Assistant \<and>
       handleSubmit_resume env q st = st\<lparr>messages := messages st @ [m], isLoading := False\<rparr>"
proof (cases "fst (handleSubmit_try env q)")
  case (Inl e)
  then show ?thesis
    by (intro exI [of _ "errorMessage e"]) (simp add: handleSubmit_resume_def errorMessage_role)
next
  case (Inr m)
  then show ?thesis
    by (intro exI [of _ m]) (simp add: handleSubmit_resume_def handleSubmit_try_role)
qed

subsection \<open>One assistant message per turn\<close>

text \<open>
  C2. A submitted turn (non-blank input, not loading) appends the user message and then
  exactly one assistant message, in every environment: whether the planner call, the parse
  of the plan or the gateway call throws, or the plan is used with or without a query.
\<close>

theorem one_assistant_message_per_turn:
  assumes "trim (input st) \<noteq> []" and "\<not> isLoading st"
  shows "\<exists>m. role m = Assistant \<and>
           messages (handleSubmit env st) = messages st @ [userMessage (input st), m] \<and>
           length (filter (\<lambda>x. role x = Assistant) (messages (handleSubmit env st))) =
             Suc (length (filter (\<lambda>x. role x = Assistant) (messages st)))"
proof -
  let ?st' = "st\<lparr>messages := messages st @ [userMessage (input st)], input := [], isLoading := True\<rparr>"
  from assms have start: "handleSubmit_start st = Some (?st', input st)"
    by (simp add: handleSubmit_start_def)
  obtain m where m: "role m = Assistant"
    and r: "handleSubmit_resume env (input st) ?st' =
              ?st'\<lparr>messages := messages ?st' @ [m], isLoading := False\<rparr>"
    using handleSubmit_resume_appends [of env "input st" ?st'] by blast
  have "messages (handleSubmit env st) = messages st @ [userMessage (input st), m]"
    by (simp add: handleSubmit_def start r)
  with m show ?thesis
    by (auto simp: userMessage_def)
qed

theorem one_assistant_message_per_turn_witness:
  "trim (input (initial_app\<lparr>input := js ''Men or women?''\<rparr>)) \<noteq> [] \<and>
   \<not> isLoading (initial_app\<lparr>input := js ''Men or women?''\<rparr>) \<and>
   (\<exists>m. role m = Assistant \<and>
      messages (handleSubmit (example_env hello_plan (\<lambda>q. Inl NonError))
                 (initial_app\<lparr>input := js ''Men or women?''\<rparr>)) =
        messages (initial_app\<lparr>input := js ''Men or women?''\<rparr>) @
          [userMessage (input (initial_app\<lparr>input := js ''Men or women?''\<rparr>)), m] \<and>
      length (filter (\<lambda>x. role x = Assistant)
          (messages (handleSubmit (example_env hello_plan (\<lambda>q. Inl NonError))
                 (initial_app\<lparr>input := js ''Men or women?''\<rparr>)))) =
        Suc (length (filter (\<lambda>x. role x = Assistant)
          (messages (initial_app\<lparr>input := js ''Men or women?''\<rparr>))))) \<and>
   (\<exists>m. role m = Assistant \<and>
      messages (handleSubmit (example_env count_plan (\<lambda>q. Inl (Error (js ''Failed to fetch''))))
                 (initial_app\<lparr>input := js ''Men or women?''\<rparr>)) =
        messages (initial_app\<lparr>input := js ''Men or women?''\<rparr>) @
          [userMessage (input (initial_app\<lparr>input := js ''Men or women?''\<rparr>)), m] \<and>
      length (filter (\<lambda>x. role x = Assistant)
          (messages (handleSubmit (example_env count_plan (\<lambda>q. Inl (Error (js ''Failed to fetch''))))
                 (initial_app\<lparr>input := js ''Men or women?''\<rparr>)))) =
        Suc (length (filter (\<lambda>x. role x = Assistant)
          (messages (initial_app\<lparr>input := js ''Men or women?''\<rparr>)))))"
proof -
  have h1: "trim (input (initial_app\<lparr>input := js ''Men or women?''\<rparr>)) \<noteq> []"
    by (simp add: js_def trim_def is_js_space_def)
  have h2: "\<not> isLoading (initial_app\<lparr>input := js ''Men or women?''\<rparr>)"
    by (simp add: initial_app_def)
  from h1 h2 one_assistant_message_per_turn [OF h1 h2,
      where env = "example_env hello_plan (\<lambda>q. Inl NonError)"]
    one_assistant_message_per_turn [OF h1 h2,
      where env = "example_env count_plan (\<lambda>q. Inl (Error (js ''Failed to fetch'')))"]
  show ?thesis
    by (intro conjI)
qed

subsection \<open>A plan without a query\<close>

text \<open>
  C5. When reading \<open>result.sql\<close> off the parsed plan gives a falsy value, nothing is posted
  to the gateway, and the assistant message appended has the plan's \<open>answer\<close> as content,
  renders no chart (the chart object the message may hold has no data points) and
  discloses no query.
\<close>

theorem plan_without_query:
  assumes gen: "generateContent env question = Inr t"
    and parse: "JSON_parse env (text_or_default t) = Inr result"
    and q: "get_prop result (js ''sql'') = Inr q"
    and falsy: "\<not> truthy_opt q"
  shows "\<exists>m. handleSubmit_try env question = (Inr m, []) \<and>
             content m = own_prop result (js ''answer'') \<and>
             view_chart m = None \<and> (\<forall>c. chart m = Some c \<longrightarrow> data c = []) \<and>
             view_sql m = None \<and>
             handleSubmit_resume env question st =
               st\<lparr>messages := messages st @ [m], isLoading := False\<rparr>"
proof -
  from q have nn: "result \<noteq> JNull" and qv: "q = own_prop result (js ''sql'')"
    by (simp_all add: get_prop_Inr)
  obtain m where m: "assistantMessage result [] = Inr m"
    using assistantMessage_non_null [OF nn] by blast
  have tried: "handleSubmit_try env question = (Inr m, [])"
    using handleSubmit_try_parsed [OF gen parse q query_chartData_falsy [OF falsy]] m by simp
  from m have c: "content m = own_prop result (js ''answer'')" and s: "sql m = q"
    by (auto simp: assistantMessage_non_null [OF nn] qv)
  from s falsy have vs: "view_sql m = None"
    by (cases q) (simp_all add: view_sql_def)
  from m have nd: "\<forall>c. chart m = Some c \<longrightarrow> data c = []"
    by (auto simp: assistantMessage_non_null [OF nn] split: if_splits)
  from tried c vs nd view_chart_no_data [OF m] resume_success [OF tried] show ?thesis
    by blast
qed

theorem plan_without_query_witness:
  "generateContent (example_env hello_plan (\<lambda>q. Inl NonError)) (js ''Hello'') =
     Inr (Some (js ''(plan)'')) \<and>
   JSON_parse (example_env hello_plan (\<lambda>q. Inl NonError)) (text_or_default (Some (js ''(plan)''))) =
     Inr hello_plan \<and>
   get_prop hello_plan (js ''sql'') = Inr None \<and>
   \<not> truthy_opt None \<and>
   (\<exists>m. handleSubmit_try (example_env hello_plan (\<lambda>q. Inl NonError)) (js ''Hello'') = (Inr m, []) \<and>
        content m = own_prop hello_plan (js ''answer'') \<and>
        view_chart m = None \<and> (\<forall>c. chart m = Some c \<longrightarrow> data c = []) \<and>
        view_sql m = None \<and>
        handleSubmit_resume (example_env hello_plan (\<lambda>q. Inl NonError)) (js ''Hello'') initial_app =
          initial_app\<lparr>messages := messages initial_app @ [m], isLoading := False\<rparr>) \<and>
   handleSubmit_try (example_env hello_plan (\<lambda>q. Inl NonError)) (js ''Hello'') =
     (Inr \<lparr>role = Assistant, content = Some (JStr (js ''Hello!'')),
           chart = Some \<lparr>chart_type = None, title = None, data = []\<rparr>, sql = None\<rparr>, [])"
proof -
  have gen: "generateContent (example_env hello_plan (\<lambda>q. Inl NonError)) (js ''Hello'') =
      Inr (Some (js ''(plan)''))"
    by (simp add: example_env_def)
  have parse: "JSON_parse (example_env hello_plan (\<lambda>q. Inl NonError))
      (text_or_default (Some (js ''(plan)''))) = Inr hello_plan"
    by (simp add: example_env_def)
  have q: "get_prop hello_plan (js ''sql'') = Inr None"
    by (simp add: hello_plan_def get_prop_def js_def)
  have falsy: "\<not> truthy_opt None"
    by simp
  have run: "handleSubmit_try (example_env hello_plan (\<lambda>q. Inl NonError)) (js ''Hello'') =
     (Inr \<lparr>role = Assistant, content = Some (JStr (js ''Hello!'')),
           chart = Some \<lparr>chart_type = None, title = None, data = []\<rparr>, sql = None\<rparr>, [])"
    by (simp add: handleSubmit_try_def assistantMessage_def ex_defs)
  from gen parse q falsy run plan_without_query [OF gen parse q falsy, of initial_app]
  show ?thesis
    by (intro conjI)
qed

subsection \<open>Chart data points\<close>

lemma row_first_two:
  assumes "map fst r = cols" and "distinct cols" and "2 \<le> length cols"
  shows "map_of r (cols ! 0) = Some (snd (r ! 0)) \<and> map_of r (cols ! 1) = Some (snd (r ! 1))"
proof -
  from assms(1,3) obtain a b rest where r: "r = a # b # rest"
    by (cases r; cases "tl r") auto
  with assms(1,2) have "fst a \<noteq> fst b"
    by auto
  with r assms(1) show ?thesis
    by (cases a; cases b) auto
qed

lemma chartData_of_rows:
  assumes "rows \<noteq> []" and "\<forall>r\<in>set rows. map fst r = cols"
    and "distinct cols" and "2 \<le> length cols"
  shows "chartData_of env (Some rows) =
           map (\<lambda>r. \<lparr>name = js_String env (Some (snd (r ! 0))),
                      point_value = js_Number env (Some (snd (r ! 1)))\<rparr>) rows"
proof -
  from assms(1) obtain row0 rest where rows: "rows = row0 # rest"
    by (cases rows) auto
  with assms(2) have k: "map fst row0 = cols"
    by simp
  have "map (\<lambda>row. \<lparr>name = js_String env (map_of row (cols ! 0)),
                     point_value = js_Number env (map_of row (cols ! 1))\<rparr>) rows =
        map (\<lambda>r. \<lparr>name = js_String env (Some (snd (r ! 0))),
                   point_value = js_Number env (Some (snd (r ! 1)))\<rparr>) rows"
  proof (rule map_cong [OF refl])
    fix r assume "r \<in> set rows"
    with assms(2) have "map fst r = cols"
      by blast
    from row_first_two [OF this assms(3,4)]
    show "\<lparr>name = js_String env (map_of r (cols ! 0)),
            point_value = js_Number env (map_of r (cols ! 1))\<rparr> =
          \<lparr>name = js_String env (Some (snd (r ! 0))),
            point_value = js_Number env (Some (snd (r ! 1)))\<rparr>"
      by simp
  qed
  with rows k assms(4) show ?thesis
    by (simp add: chartData_of_def)
qed

text \<open>
  C3. When the gateway answers the turn's query with an OK response whose rows (a result
  set: every row has the same distinct column names \<open>cols\<close>) have at least two columns,
  \<open>chartData\<close> holds exactly one point per row, in order: its name is \<open>String\<close> of the
  value of the row's first column and its value is \<open>Number\<close> of the value of the second.
  These points are the data of the chart attached to the assistant message, which is
  attached unless the plan's chart type is \<open>none\<close>.
\<close>

theorem chart_point_per_row:
  assumes gen: "generateContent env question = Inr t"
    and parse: "JSON_parse env (text_or_default t) = Inr result"
    and q: "get_prop result (js ''sql'') = Inr (Some q)"
    and truthy: "truthy q"
    and fetch: "fetch_query env q = Inr queryResponse"
    and ok: "ok queryResponse"
    and rows: "response_data queryResponse = Inr (Some rows)"
    and ne: "rows \<noteq> []"
    and cols: "\<forall>r\<in>set rows. map fst r = cols"
    and dist: "distinct cols"
    and two: "2 \<le> length cols"
  shows "\<exists>points m.
           points = map (\<lambda>r. \<lparr>name = js_String env (Some (snd (r ! 0))),
                               point_value = js_Number env (Some (snd (r ! 1)))\<rparr>) rows \<and>
           length points = length rows \<and>
           query_chartData env (Some q) = (Inr points, [q]) \<and>
           handleSubmit_try env question = (Inr m, [q]) \<and>
           chart m =
             (if optional_prop (own_prop result (js ''chart'')) (js ''type'') \<noteq>
                   Some (JStr (js ''none''))
              then Some \<lparr>chart_type = optional_prop (own_prop result (js ''chart'')) (js ''type''),
                         title = optional_prop (own_prop result (js ''chart'')) (js ''title''),
                         data = points\<rparr>
              else None)"
proof -
  define points where
    "points = map (\<lambda>r. \<lparr>name = js_String env (Some (snd (r ! 0))),
                         point_value = js_Number env (Some (snd (r ! 1)))\<rparr>) rows"
  from q have nn: "result \<noteq> JNull"
    by (simp add: get_prop_Inr)
  have cd: "query_chartData env (Some q) = (Inr points, [q])"
    using truthy fetch ok rows chartData_of_rows [OF ne cols dist two, of env]
    by (simp add: points_def)
  obtain m where m: "assistantMessage result points = Inr m"
    using assistantMessage_non_null [OF nn] by blast
  have tried: "handleSubmit_try env question = (Inr m, [q])"
    using handleSubmit_try_parsed [OF gen parse q cd] m by simp
  have len: "length points = length rows"
    by (simp add: points_def)
  from m have ch: "chart m =
             (if optional_prop (own_prop result (js ''chart'')) (js ''type'') \<noteq>
                   Some (JStr (js ''none''))
              then Some \<lparr>chart_type = optional_prop (own_prop result (js ''chart'')) (js ''type''),
                         title = optional_prop (own_prop result (js ''chart'')) (js ''title''),
                         data = points\<rparr>
              else None)"
    by (auto simp: assistantMessage_non_null [OF nn])
  from points_def len cd tried ch show ?thesis
    by blast
qed

theorem chart_point_per_row_witness:
  "generateContent (example_env count_plan count_gateway) (js ''Men or women?'') =
     Inr (Some (js ''(plan)'')) \<and>
   JSON_parse (example_env count_plan count_gateway) (text_or_default (Some (js ''(plan)''))) =
     Inr count_plan \<and>
   get_prop count_plan (js ''sql'') =
     Inr (Some (JStr (js ''SELECT Sex, COUNT(*) AS n FROM titanic GROUP BY Sex''))) \<and>
   truthy (JStr (js ''SELECT Sex, COUNT(*) AS n FROM titanic GROUP BY Sex'')) \<and>
   fetch_query (example_env count_plan count_gateway)
       (JStr (js ''SELECT Sex, COUNT(*) AS n FROM titanic GROUP BY Sex'')) =
     Inr \<lparr>ok = True, response_data = Inr (Some count_rows)\<rparr> \<and>
   ok \<lparr>ok = True, response_data = Inr (Some count_rows)\<rparr> \<and>
   response_data \<lparr>ok = True, response_data = Inr (Some count_rows)\<rparr> = Inr (Some count_rows) \<and>
   count_rows \<noteq> [] \<and>
   map (map fst) count_rows = [[js ''Sex'', js ''n''], [js ''Sex'', js ''n'']] \<and>
   distinct [js ''Sex'', js ''n''] \<and>
   2 \<le> length [js ''Sex'', js ''n''] \<and>
   fst (handleSubmit_try (example_env count_plan count_gateway) (js ''Men or women?'')) =
     Inr \<lparr>role = Assistant, content = Some (JStr (js ''Counts by sex.'')),
          chart = Some \<lparr>chart_type = Some (JStr (js ''bar'')),
                       title = Some (JStr (js ''By sex'')),
                       data = [\<lparr>name = js ''female'', point_value = Finite 314\<rparr>,
                               \<lparr>name = js ''male'', point_value = Finite 577\<rparr>]\<rparr>,
          sql = Some (JStr (js ''SELECT Sex, COUNT(*) AS n FROM titanic GROUP BY Sex''))\<rparr>"
proof -
  let ?env = "example_env count_plan count_gateway"
  let ?q = "JStr (js ''SELECT Sex, COUNT(*) AS n FROM titanic GROUP BY Sex'')"
  let ?r = "\<lparr>ok = True, response_data = Inr (Some count_rows)\<rparr>"
  have gen: "generateContent ?env (js ''Men or women?'') = Inr (Some (js ''(plan)''))"
    by (simp add: example_env_def)
  have parse: "JSON_parse ?env (text_or_default (Some (js ''(plan)''))) = Inr count_plan"
    by (simp add: example_env_def)
  have q: "get_prop count_plan (js ''sql'') = Inr (Some ?q)"
    by (simp add: count_plan_def get_prop_def js_def)
  have tr: "truthy ?q"
    by (simp add: js_def)
  have fetch: "fetch_query ?env ?q = Inr ?r"
    by (simp add: example_env_def count_gateway_def)
  have ok: "ok ?r"
    by simp
  have rows: "response_data ?r = Inr (Some count_rows)"
    by simp
  have ne: "count_rows \<noteq> []"
    by (simp add: count_rows_def)
  have cols: "\<forall>r\<in>set count_rows. map fst r = [js ''Sex'', js ''n'']"
    by (simp add: count_rows_def)
  have dist: "distinct [js ''Sex'', js ''n'']"
    by (simp add: js_def)
  have two: "2 \<le> length [js ''Sex'', js ''n'']"
    by simp
  from chart_point_per_row [OF gen parse q tr fetch ok rows ne cols dist two]
  obtain points m where
    p: "points = map (\<lambda>r. \<lparr>name = js_String ?env (Some (snd (r ! 0))),
                            point_value = js_Number ?env (Some (snd (r ! 1)))\<rparr>) count_rows"
    and t: "handleSubmit_try ?env (js ''Men or women?'') = (Inr m, [?q])"
    and c: "chart m =
             (if optional_prop (own_prop count_plan (js ''chart'')) (js ''type'') \<noteq>
                   Some (JStr (js ''none''))
              then Some \<lparr>chart_type = optional_prop (own_prop count_plan (js ''chart'')) (js ''type''),
                         title = optional_prop (own_prop count_plan (js ''chart'')) (js ''title''),
                         data = points\<rparr>
              else None)"
    by blast
  from p have pts: "points = [\<lparr>name = js ''female'', point_value = Finite 314\<rparr>,
                               \<lparr>name = js ''male'', point_value = Finite 577\<rparr>]"
    by (simp add: example_env_def count_rows_def example_String_def example_Number_def)
  from q have nn: "count_plan \<noteq> JNull"
    by (simp add: get_prop_Inr)
  have "assistantMessage count_plan points = Inr m"
    using t handleSubmit_try_parsed [OF gen parse q, of points "[?q]"] tr fetch ok rows
      chartData_of_rows [OF ne cols dist two, of ?env] p by simp
  then have "m = \<lparr>role = Assistant, content = Some (JStr (js ''Counts by sex.'')),
          chart = Some \<lparr>chart_type = Some (JStr (js ''bar'')),
                       title = Some (JStr (js ''By sex'')),
                       data = points\<rparr>,
          sql = Some ?q\<rparr>"
    by (simp add: assistantMessage_non_null [OF nn]) (simp add: count_plan_def js_def)
  with t pts have "fst (handleSubmit_try ?env (js ''Men or women?'')) =
     Inr \<lparr>role = Assistant, content = Some (JStr (js ''Counts by sex.'')),
          chart = Some \<lparr>chart_type = Some (JStr (js ''bar'')),
                       title = Some (JStr (js ''By sex'')),
                       data = [\<lparr>name = js ''female'', point_value = Finite 314\<rparr>,
                               \<lparr>name = js ''male'', point_value = Finite 577\<rparr>]\<rparr>,
          sql = Some ?q\<rparr>"
    by simp
  moreover have "map (map fst) count_rows = [[js ''Sex'', js ''n''], [js ''Sex'', js ''n'']]"
    by (simp add: count_rows_def)
  ultimately show ?thesis
    using gen parse q tr fetch ok rows ne dist two by (intro conjI)
qed

text \<open>
  C8. When the turn's query returns zero rows, the assistant message appended renders no
  chart, whatever chart type the plan asked for.
\<close>

theorem no_chart_for_zero_rows:
  assumes gen: "generateContent env question = Inr t"
    and parse: "JSON_parse env (text_or_default t) = Inr result"
    and q: "get_prop result (js ''sql'') = Inr (Some q)"
    and truthy: "truthy q"
    and fetch: "fetch_query env q = Inr queryResponse"
    and ok: "ok queryResponse"
    and rows: "response_data queryResponse = Inr (Some [])"
  shows "\<exists>m. handleSubmit_try env question = (Inr m, [q]) \<and>
             view_chart m = None \<and>
             handleSubmit_resume env question st =
               st\<lparr>messages := messages st @ [m], isLoading := False\<rparr>"
proof -
  from q have nn: "result \<noteq> JNull"
    by (simp add: get_prop_Inr)
  obtain m where m: "assistantMessage result [] = Inr m"
    using assistantMessage_non_null [OF nn] by blast
  have cd: "query_chartData env (Some q) = (Inr [], [q])"
    using truthy fetch ok rows by (simp add: chartData_of_def)
  have tried: "handleSubmit_try env question = (Inr m, [q])"
    using handleSubmit_try_parsed [OF gen parse q cd] m by simp
  from tried view_chart_no_data [OF m] resume_success [OF tried] show ?thesis
    by blast
qed

theorem no_chart_for_zero_rows_witness:
  "generateContent (example_env count_plan empty_gateway) (js ''Men or women?'') =
     Inr (Some (js ''(plan)'')) \<and>
   JSON_parse (example_env count_plan empty_gateway) (text_or_default (Some (js ''(plan)''))) =
     Inr count_plan \<and>
   get_prop count_plan (js ''sql'') =
     Inr (Some (JStr (js ''SELECT Sex, COUNT(*) AS n FROM titanic GROUP BY Sex''))) \<and>
   truthy (JStr (js ''SELECT Sex, COUNT(*) AS n FROM titanic GROUP BY Sex'')) \<and>
   fetch_query (example_env count_plan empty_gateway)
       (JStr (js ''SELECT Sex, COUNT(*) AS n FROM titanic GROUP BY Sex'')) =
     Inr \<lparr>ok = True, response_data = Inr (Some [])\<rparr> \<and>
   ok \<lparr>ok = True, response_data = Inr (Some [])\<rparr> \<and>
   response_data \<lparr>ok = True, response_data = Inr (Some [])\<rparr> = Inr (Some []) \<and>
   optional_prop (own_prop count_plan (js ''chart'')) (js ''type'') = Some (JStr (js ''bar'')) \<and>
   (\<exists>m. handleSubmit_try (example_env count_plan empty_gateway) (js ''Men or women?'') =
          (Inr m, [JStr (js ''SELECT Sex, COUNT(*) AS n FROM titanic GROUP BY Sex'')]) \<and>
        view_chart m = None \<and>
        handleSubmit_resume (example_env count_plan empty_gateway) (js ''Men or women?'')
            initial_app =
          initial_app\<lparr>messages := messages initial_app @ [m], isLoading := False\<rparr>)"
proof -
  let ?env = "example_env count_plan empty_gateway"
  let ?q = "JStr (js ''SELECT Sex, COUNT(*) AS n FROM titanic GROUP BY Sex'')"
  let ?r = "\<lparr>ok = True, response_data = Inr (Some [])\<rparr>"
  have gen: "generateContent ?env (js ''Men or women?'') = Inr (Some (js ''(plan)''))"
    by (simp add: example_env_def)
  have parse: "JSON_parse ?env (text_or_default (Some (js ''(plan)''))) = Inr count_plan"
    by (simp add: example_env_def)
  have q: "get_prop count_plan (js ''sql'') = Inr (Some ?q)"
    by (simp add: count_plan_def get_prop_def js_def)
  have tr: "truthy ?q"
    by (simp add: js_def)
  have fetch: "fetch_query ?env ?q = Inr ?r"
    by (simp add: example_env_def empty_gateway_def)
  have ok: "ok ?r"
    by simp
  have rows: "response_data ?r = Inr (Some [])"
    by simp
  have bar: "optional_prop (own_prop count_plan (js ''chart'')) (js ''type'') =
      Some (JStr (js ''bar''))"
    by (simp add: count_plan_def js_def)
  from gen parse q tr fetch ok rows bar
    no_chart_for_zero_rows [OF gen parse q tr fetch ok rows, of initial_app]
  show ?thesis
    by (intro conjI)
qed

subsection \<open>Gateway failures\<close>

text \<open>
  C4, as the code has it. When the gateway call throws, the turn ends in the \<open>catch\<close>
  block: the message appended is the error description built from what was thrown, and the
  loading flag is cleared. When the gateway answers with a non-OK response, the \<open>if
  (queryResponse.ok)\<close> block is skipped and the turn ends as a successful one: the message
  appended carries the plan's answer and query, renders no chart, and the loading flag is
  cleared.
\<close>

theorem gateway_failure_paths:
  assumes gen: "generateContent env question = Inr t"
    and parse: "JSON_parse env (text_or_default t) = Inr result"
    and q: "get_prop result (js ''sql'') = Inr (Some q)"
    and truthy: "truthy q"
  shows "(fetch_query env q = Inl e \<longrightarrow>
            handleSubmit_resume env question st =
              st\<lparr>messages := messages st @ [errorMessage e], isLoading := False\<rparr>) \<and>
         (fetch_query env q = Inr queryResponse \<and> \<not> ok queryResponse \<longrightarrow>
            (\<exists>m. handleSubmit_resume env question st =
                    st\<lparr>messages := messages st @ [m], isLoading := False\<rparr> \<and>
                 role m = Assistant \<and>
                 content m = own_prop result (js ''answer'') \<and>
                 sql m = Some q \<and>
                 view_chart m = None))"
proof (intro conjI impI)
  assume "fetch_query env q = Inl e"
  with truthy have "query_chartData env (Some q) = (Inl e, [q])"
    by simp
  from resume_failure [OF handleSubmit_try_query_throws [OF gen parse q this]]
  show "handleSubmit_resume env question st =
          st\<lparr>messages := messages st @ [errorMessage e], isLoading := False\<rparr>" .
next
  assume "fetch_query env q = Inr queryResponse \<and> \<not> ok queryResponse"
  with truthy have cd: "query_chartData env (Some q) = (Inr [], [q])"
    by simp
  from q have nn: "result \<noteq> JNull" and qv: "own_prop result (js ''sql'') = Some q"
    by (simp_all add: get_prop_Inr)
  obtain m where m: "assistantMessage result [] = Inr m"
    using assistantMessage_non_null [OF nn] by blast
  have tried: "handleSubmit_try env question = (Inr m, [q])"
    using handleSubmit_try_parsed [OF gen parse q cd] m by simp
  from m have "role m = Assistant" and "content m = own_prop result (js ''answer'')"
    and "sql m = Some q"
    by (auto simp: assistantMessage_non_null [OF nn] qv)
  with resume_success [OF tried] view_chart_no_data [OF m]
  show "\<exists>m. handleSubmit_resume env question st =
               st\<lparr>messages := messages st @ [m], isLoading := False\<rparr> \<and>
             role m = Assistant \<and>
             content m = own_prop result (js ''answer'') \<and>
             sql m = Some q \<and>
             view_chart m = None"
    by blast
qed

theorem gateway_failure_paths_witness:
  "generateContent (example_env count_plan unreachable_gateway) (js ''Men or women?'') =
     Inr (Some (js ''(plan)'')) \<and>
   JSON_parse (example_env count_plan unreachable_gateway) (text_or_default (Some (js ''(plan)''))) =
     Inr count_plan \<and>
   generateContent (example_env count_plan refusing_gateway) (js ''Men or women?'') =
     Inr (Some (js ''(plan)'')) \<and>
   JSON_parse (example_env count_plan refusing_gateway) (text_or_default (Some (js ''(plan)''))) =
     Inr count_plan \<and>
   get_prop count_plan (js ''sql'') =
     Inr (Some (JStr (js ''SELECT Sex, COUNT(*) AS n FROM titanic GROUP BY Sex''))) \<and>
   truthy (JStr (js ''SELECT Sex, COUNT(*) AS n FROM titanic GROUP BY Sex'')) \<and>
   fetch_query (example_env count_plan unreachable_gateway)
       (JStr (js ''SELECT Sex, COUNT(*) AS n FROM titanic GROUP BY Sex'')) =
     Inl (Error (js ''Failed to fetch'')) \<and>
   handleSubmit_resume (example_env count_plan unreachable_gateway) (js ''Men or women?'')
       (initial_app\<lparr>isLoading := True\<rparr>) =
     initial_app\<lparr>isLoading := True\<rparr>
       \<lparr>messages := messages (initial_app\<lparr>isLoading := True\<rparr>) @
          [errorMessage (Error (js ''Failed to fetch''))], isLoading := False\<rparr> \<and>
   fetch_query (example_env count_plan refusing_gateway)
       (JStr (js ''SELECT Sex, COUNT(*) AS n FROM titanic GROUP BY Sex'')) =
     Inr \<lparr>ok = False, response_data = Inr None\<rparr> \<and>
   \<not> ok \<lparr>ok = False, response_data = Inr None\<rparr> \<and>
   (\<exists>m. handleSubmit_resume (example_env count_plan refusing_gateway) (js ''Men or women?'')
            (initial_app\<lparr>isLoading := True\<rparr>) =
          initial_app\<lparr>isLoading := True\<rparr>
            \<lparr>messages := messages (initial_app\<lparr>isLoading := True\<rparr>) @ [m], isLoading := False\<rparr> \<and>
        role m = Assistant \<and>
        content m = own_prop count_plan (js ''answer'') \<and>
        sql m = Some (JStr (js ''SELECT Sex, COUNT(*) AS n FROM titanic GROUP BY Sex'')) \<and>
        view_chart m = None)"
proof -
  let ?envT = "example_env count_plan unreachable_gateway"
  let ?envR = "example_env count_plan refusing_gateway"
  let ?q = "JStr (js ''SELECT Sex, COUNT(*) AS n FROM titanic GROUP BY Sex'')"
  let ?r = "\<lparr>ok = False, response_data = Inr None\<rparr>"
  let ?st = "initial_app\<lparr>isLoading := True\<rparr>"
  have genT: "generateContent ?envT (js ''Men or women?'') = Inr (Some (js ''(plan)''))"
    by (simp add: example_env_def)
  have parseT: "JSON_parse ?envT (text_or_default (Some (js ''(plan)''))) = Inr count_plan"
    by (simp add: example_env_def)
  have genR: "generateContent ?envR (js ''Men or women?'') = Inr (Some (js ''(plan)''))"
    by (simp add: example_env_def)
  have parseR: "JSON_parse ?envR (text_or_default (Some (js ''(plan)''))) = Inr count_plan"
    by (simp add: example_env_def)
  have q: "get_prop count_plan (js ''sql'') = Inr (Some ?q)"
    by (simp add: count_plan_def get_prop_def js_def)
  have tr: "truthy ?q"
    by (simp add: js_def)
  have fetchT: "fetch_query ?envT ?q = Inl (Error (js ''Failed to fetch''))"
    by (simp add: example_env_def unreachable_gateway_def)
  have fetchR: "fetch_query ?envR ?q = Inr ?r"
    by (simp add: example_env_def refusing_gateway_def)
  have nok: "\<not> ok ?r"
    by simp
  from gateway_failure_paths [OF genT parseT q tr,
      where e = "Error (js ''Failed to fetch'')" and st = ?st] fetchT
  have thrown: "handleSubmit_resume ?envT (js ''Men or women?'') ?st =
      ?st\<lparr>messages := messages ?st @ [errorMessage (Error (js ''Failed to fetch''))],
          isLoading := False\<rparr>"
    by blast
  from gateway_failure_paths [OF genR parseR q tr, where queryResponse = ?r and st = ?st]
    fetchR nok
  have refused: "\<exists>m. handleSubmit_resume ?envR (js ''Men or women?'') ?st =
          ?st\<lparr>messages := messages ?st @ [m], isLoading := False\<rparr> \<and>
        role m = Assistant \<and>
        content m = own_prop count_plan (js ''answer'') \<and>
        sql m = Some ?q \<and>
        view_chart m = None"
    by blast
  from genT parseT genR parseR q tr fetchT thrown fetchR nok refused show ?thesis
    by (intro conjI)
qed

text \<open>
  C4 as stated fails for a non-OK response: with a gateway that refuses the plan's
  \<open>DELETE FROM titanic\<close>, the query is posted, and the message appended is the plan's
  answer with the query attached, which is no error description.
\<close>

theorem non_ok_response_is_not_an_error_turn:
  "fetch_query (example_env delete_plan refusing_gateway) (JStr (js ''DELETE FROM titanic'')) =
     Inr \<lparr>ok = False, response_data = Inr None\<rparr> \<and>
   handleSubmit (example_env delete_plan refusing_gateway)
       (initial_app\<lparr>input := js ''Delete everything''\<rparr>) =
     initial_app
       \<lparr>messages := messages initial_app @
          [userMessage (js ''Delete everything''),
           \<lparr>role = Assistant, content = Some (JStr (js ''All rows deleted.'')), chart = None,
            sql = Some (JStr (js ''DELETE FROM titanic''))\<rparr>]\<rparr> \<and>
   snd (handleSubmit_try (example_env delete_plan refusing_gateway) (js ''Delete everything'')) =
     [JStr (js ''DELETE FROM titanic'')] \<and>
   (\<forall>e. \<lparr>role = Assistant, content = Some (JStr (js ''All rows deleted.'')), chart = None,
         sql = Some (JStr (js ''DELETE FROM titanic''))\<rparr> \<noteq> errorMessage e)"
proof -
  have run: "handleSubmit_try (example_env delete_plan refusing_gateway) (js ''Delete everything'') =
      (Inr \<lparr>role = Assistant, content = Some (JStr (js ''All rows deleted.'')), chart = None,
            sql = Some (JStr (js ''DELETE FROM titanic''))\<rparr>, [JStr (js ''DELETE FROM titanic'')])"
    by (simp add: handleSubmit_try_def assistantMessage_def ex_defs gw_defs)
  have start: "handleSubmit_start (initial_app\<lparr>input := js ''Delete everything''\<rparr>) =
      Some (initial_app\<lparr>messages := messages initial_app @ [userMessage (js ''Delete everything'')],
              isLoading := True\<rparr>, js ''Delete everything'')"
    by (simp add: handleSubmit_start_def initial_app_def js_def trim_def is_js_space_def)
  have "handleSubmit (example_env delete_plan refusing_gateway)
       (initial_app\<lparr>input := js ''Delete everything''\<rparr>) =
     initial_app
       \<lparr>messages := messages initial_app @
          [userMessage (js ''Delete everything''),
           \<lparr>role = Assistant, content = Some (JStr (js ''All rows deleted.'')), chart = None,
            sql = Some (JStr (js ''DELETE FROM titanic''))\<rparr>]\<rparr>"
    by (simp add: handleSubmit_def start handleSubmit_resume_def run) (simp add: initial_app_def)
  moreover have "fetch_query (example_env delete_plan refusing_gateway)
      (JStr (js ''DELETE FROM titanic'')) = Inr \<lparr>ok = False, response_data = Inr None\<rparr>"
    by (simp add: example_env_def refusing_gateway_def)
  moreover have "\<forall>e. \<lparr>role = Assistant, content = Some (JStr (js ''All rows deleted.'')),
         chart = None, sql = Some (JStr (js ''DELETE FROM titanic''))\<rparr> \<noteq> errorMessage e"
    by (simp add: errorMessage_def js_def)
  ultimately show ?thesis
    using run by simp
qed

subsection \<open>One turn in flight\<close>

lemma one_in_flight_fire: "one_in_flight \<sigma> \<Longrightarrow> one_in_flight (fire ev \<sigma>)"
proof (cases ev)
  case (SetInput s)
  assume "one_in_flight \<sigma>"
  with SetInput show ?thesis by (simp add: one_in_flight_def)
next
  case Submit
  assume "one_in_flight \<sigma>"
  with Submit show ?thesis
    by (auto simp: one_in_flight_def handleSubmit_start_def split: option.splits if_splits)
next
  case (Settle env i)
  assume "one_in_flight \<sigma>"
  with Settle show ?thesis
    by (cases "in_flight \<sigma>") (auto simp: one_in_flight_def resume_not_loading)
qed

lemma one_in_flight_fold: "one_in_flight \<sigma> \<Longrightarrow> one_in_flight (fold fire evs \<sigma>)"
  by (induction evs arbitrary: \<sigma>) (simp_all add: one_in_flight_fire)

lemma one_in_flight_run: "one_in_flight (run evs)"
  unfolding run_def by (rule one_in_flight_fold) (simp add: one_in_flight_def initial_session_def initial_app_def)

text \<open>
  C9. In every state a session can reach, at most one turn is in flight, and the loading
  flag is set exactly while one is. While it is set, a submission changes nothing: no
  message is appended and no turn starts. When the pending turn settles, in any environment
  (so on the success and on the error path), the loading flag is cleared, and a submission
  of a non-blank input is accepted again: it appends the user message and starts a turn.
\<close>

theorem submissions_ignored_while_loading:
  assumes "\<sigma> = run evs"
  shows "length (in_flight \<sigma>) \<le> 1 \<and>
         (isLoading (ui \<sigma>) \<longleftrightarrow> in_flight \<sigma> \<noteq> []) \<and>
         (isLoading (ui \<sigma>) \<longrightarrow> fire Submit \<sigma> = \<sigma>) \<and>
         (i < length (in_flight \<sigma>) \<longrightarrow>
            \<not> isLoading (ui (fire (Settle env i) \<sigma>)) \<and>
            in_flight (fire (Settle env i) \<sigma>) = [] \<and>
            (trim (input (ui \<sigma>)) \<noteq> [] \<longrightarrow>
               in_flight (fire Submit (fire (Settle env i) \<sigma>)) = [input (ui \<sigma>)] \<and>
               messages (ui (fire Submit (fire (Settle env i) \<sigma>))) =
                 messages (ui (fire (Settle env i) \<sigma>)) @ [userMessage (input (ui \<sigma>))]))"
proof -
  from assms have i: "one_in_flight \<sigma>"
    by (simp add: one_in_flight_run)
  then have one: "length (in_flight \<sigma>) \<le> 1"
    and iff: "isLoading (ui \<sigma>) \<longleftrightarrow> in_flight \<sigma> \<noteq> []"
    by (simp_all add: one_in_flight_def)
  have ignored: "isLoading (ui \<sigma>) \<longrightarrow> fire Submit \<sigma> = \<sigma>"
    by (simp add: handleSubmit_start_def)
  have settle: "i < length (in_flight \<sigma>) \<longrightarrow>
            \<not> isLoading (ui (fire (Settle env i) \<sigma>)) \<and>
            in_flight (fire (Settle env i) \<sigma>) = [] \<and>
            (trim (input (ui \<sigma>)) \<noteq> [] \<longrightarrow>
               in_flight (fire Submit (fire (Settle env i) \<sigma>)) = [input (ui \<sigma>)] \<and>
               messages (ui (fire Submit (fire (Settle env i) \<sigma>))) =
                 messages (ui (fire (Settle env i) \<sigma>)) @ [userMessage (input (ui \<sigma>))])"
  proof
    assume lt: "i < length (in_flight \<sigma>)"
    with one have i0: "i = 0" and len: "length (in_flight \<sigma>) = 1"
      by simp_all
    define \<tau> where "\<tau> = fire (Settle env i) \<sigma>"
    from lt have ui: "ui \<tau> = handleSubmit_resume env (in_flight \<sigma> ! i) (ui \<sigma>)"
      by (simp add: \<tau>_def)
    from lt len i0 have fl: "in_flight \<tau> = []"
      by (simp add: \<tau>_def)
    have nl: "\<not> isLoading (ui \<tau>)"
      unfolding ui by (rule resume_not_loading)
    have inp: "input (ui \<tau>) = input (ui \<sigma>)"
      unfolding ui by (simp add: handleSubmit_resume_def split: sum.splits)
    have "trim (input (ui \<sigma>)) \<noteq> [] \<longrightarrow>
            in_flight (fire Submit \<tau>) = [input (ui \<sigma>)] \<and>
            messages (ui (fire Submit \<tau>)) = messages (ui \<tau>) @ [userMessage (input (ui \<sigma>))]"
      using nl inp fl by (simp add: handleSubmit_start_def)
    with nl fl show "\<not> isLoading (ui (fire (Settle env i) \<sigma>)) \<and>
            in_flight (fire (Settle env i) \<sigma>) = [] \<and>
            (trim (input (ui \<sigma>)) \<noteq> [] \<longrightarrow>
               in_flight (fire Submit (fire (Settle env i) \<sigma>)) = [input (ui \<sigma>)] \<and>
               messages (ui (fire Submit (fire (Settle env i) \<sigma>))) =
                 messages (ui (fire (Settle env i) \<sigma>)) @ [userMessage (input (ui \<sigma>))])"
      unfolding \<tau>_def by blast
  qed
  from one iff ignored settle show ?thesis
    by blast
qed

theorem submissions_ignored_while_loading_witness:
  "isLoading (ui (run [SetInput (js ''Hi''), Submit, SetInput (js ''More'')])) \<and>
   in_flight (run [SetInput (js ''Hi''), Submit, SetInput (js ''More'')]) = [js ''Hi''] \<and>
   trim (input (ui (run [SetInput (js ''Hi''), Submit, SetInput (js ''More'')]))) \<noteq> [] \<and>
   fire Submit (run [SetInput (js ''Hi''), Submit, SetInput (js ''More'')]) =
     run [SetInput (js ''Hi''), Submit, SetInput (js ''More'')] \<and>
   \<not> isLoading (ui (fire (Settle (example_env hello_plan unreachable_gateway) 0)
       (run [SetInput (js ''Hi''), Submit, SetInput (js ''More'')]))) \<and>
   in_flight (fire Submit (fire (Settle (example_env hello_plan unreachable_gateway) 0)
       (run [SetInput (js ''Hi''), Submit, SetInput (js ''More'')]))) = [js ''More'']"
proof -
  let ?\<sigma> = "run [SetInput (js ''Hi''), Submit, SetInput (js ''More'')]"
  have \<sigma>: "?\<sigma> = \<lparr>ui = \<lparr>input = js ''More'',
                       messages = messages initial_app @ [userMessage (js ''Hi'')],
                       isLoading = True\<rparr>,
                  in_flight = [js ''Hi'']\<rparr>"
    by (simp add: run_def initial_session_def initial_app_def handleSubmit_start_def
        js_def trim_def is_js_space_def)
  have loading: "isLoading (ui ?\<sigma>)"
    by (simp add: \<sigma>)
  have pending: "in_flight ?\<sigma> = [js ''Hi'']"
    by (simp add: \<sigma>)
  have inp: "input (ui ?\<sigma>) = js ''More''"
    by (simp add: \<sigma>)
  have nonblank: "trim (input (ui ?\<sigma>)) \<noteq> []"
    unfolding inp by (simp add: js_def trim_def is_js_space_def)
  from submissions_ignored_while_loading [OF refl,
      where evs = "[SetInput (js ''Hi''), Submit, SetInput (js ''More'')]"
        and i = 0 and env = "example_env hello_plan unreachable_gateway"]
    loading pending nonblank inp
  show ?thesis
    by simp
qed

end
